theory Spec2Isabelle
  imports
    Complex_Main
    "HOL-Library.Char_ord"
    "HOL-Library.List_Lexorder"
    "HOL-Library.Product_Lexorder"
begin

text \<open>
  The ingestion, cleaning, filtering and aggregation functions of the COVID-19 analysis
  library (\<open>data_utils.py\<close>, \<open>stats.py\<close>, \<open>advanced_metrics.py\<close>) as functions on lists of
  rows. An exception a function raises is the \<open>Inl\<close> value of its result; a table a function
  assigns to is returned with the result.
\<close>

section \<open>The canonical case table\<close>

text \<open>
  A calendar date (Python's \<open>datetime.date\<close>) is the triple of its year, month and day.
  The lexicographic order on triples is the chronological order that Python and pandas
  use when they compare or sort dates.
\<close>

type_synonym date = "int \<times> int \<times> int"

definition year :: "date \<Rightarrow> int" where
  "year d = fst d"

definition month :: "date \<Rightarrow> int" where
  "month d = fst (snd d)"

definition day :: "date \<Rightarrow> int" where
  "day d = snd (snd d)"

text \<open>
  One row of the table the statistics functions receive: the columns of the
  \<open>covid_data\<close> table as \<open>load_data_from_db\<close> selects them, every cell present as in a
  cleaned table. Counts are Python integers, coordinates are floating-point numbers,
  modelled by the rationals they denote. Strings are compared as Python compares them,
  character by character.
\<close>

record case_row =
  country :: string
  province :: string
  date :: date
  confirmed_cases :: int
  deaths_cases :: int
  recovered_cases :: int
  latitude :: rat
  longitude :: rat

datatype py_error = ValueError | KeyError

text \<open>
  The table a caller holds. Its date column has one of two representations: Python
  \<open>datetime.date\<close> objects, as the database driver delivers them, or pandas timestamps
  (\<open>datetime64\<close>), which is what \<open>pd.to_datetime\<close> makes of the column. Both denote the
  calendar day kept in the row. Some functions assign a column to the table they are given
  without copying it first, so the caller's table is part of their result: besides the
  representation of the date column, the table records the \<open>year\<close> and \<open>month_year\<close>
  columns, each absent (\<open>None\<close>) until assigned.
\<close>

datatype date_dtype = DateObjects | Datetime64

record frame =
  rows :: "case_row list"
  date_dtype :: date_dtype
  year_column :: "int list option"
  month_year_column :: "string list option"

subsection \<open>Grouping\<close>

text \<open>
  \<open>df.groupby(key)\<close> with pandas' default \<open>sort=True\<close>: one group per distinct key, the groups
  in ascending key order, the rows of a group in their original order.
\<close>

definition group_keys :: "('a \<Rightarrow> 'k::linorder) \<Rightarrow> 'a list \<Rightarrow> 'k list" where
  "group_keys key xs = sort (remdups (map key xs))"

definition groupby :: "('a \<Rightarrow> 'k::linorder) \<Rightarrow> 'a list \<Rightarrow> ('k \<times> 'a list) list" where
  "groupby key xs = map (\<lambda>k. (k, filter (\<lambda>x. key x = k) xs)) (group_keys key xs)"

section \<open>stats.py: the date-range delta\<close>

text \<open>
  \<open>df[df['date'] == d]\<close> for a \<open>datetime.date\<close> argument \<open>d\<close>, which is what the caller passes.
  On a column of date objects the comparison is equality of calendar days. On a
  \<open>datetime64\<close> column pandas does not accept a \<open>datetime.date\<close> as a comparable value and
  the comparison is \<open>False\<close> in every row, so no row is selected.
\<close>

definition rows_at :: "frame \<Rightarrow> date \<Rightarrow> case_row list" where
  "rows_at df d =
     (case date_dtype df of
        DateObjects \<Rightarrow> filter (\<lambda>r. date r = d) (rows df)
      | Datetime64 \<Rightarrow> [])"

text \<open>
  \<open>df[df['date'] == d].groupby('country')[[...]].sum().reset_index()\<close>: the rows selected
  for one date, one summed row per country.
\<close>

record count_row =
  cr_country :: string
  cr_confirmed :: int
  cr_deaths :: int
  cr_recovered :: int

definition sums_at :: "frame \<Rightarrow> date \<Rightarrow> count_row list" where
  "sums_at df d =
     map (\<lambda>(c, g). \<lparr>cr_country = c,
                     cr_confirmed = sum_list (map confirmed_cases g),
                     cr_deaths = sum_list (map deaths_cases g),
                     cr_recovered = sum_list (map recovered_cases g)\<rparr>)
         (groupby country (rows_at df d))"

text \<open>
  \<open>df_end.merge(df_start, on='country', suffixes=('_end', '_start'))\<close>: pandas' default inner
  join. Every pair of a left row and a right row with the same country gives one merged
  row; the merged rows follow the order of the left table. The three subtractions and the
  final column selection are done on each merged row.
\<close>

definition merge_delta :: "count_row list \<Rightarrow> count_row list \<Rightarrow> count_row list" where
  "merge_delta df_end df_start =
     concat (map (\<lambda>e. map (\<lambda>s. \<lparr>cr_country = cr_country e,
                                   cr_confirmed = cr_confirmed e - cr_confirmed s,
                                   cr_deaths = cr_deaths e - cr_deaths s,
                                   cr_recovered = cr_recovered e - cr_recovered s\<rparr>)
                          (filter (\<lambda>s. cr_country s = cr_country e) df_start))
                 df_end)"

definition stats_by_date_range :: "frame \<Rightarrow> date \<Rightarrow> date \<Rightarrow> count_row list" where
  "stats_by_date_range df start_date end_date =
     (let df_start = sums_at df start_date;
          df_end = sums_at df end_date
      in merge_delta df_end df_start)"

text \<open>The per-country sum of a count column at one date, as the claims speak of it.\<close>

definition total_at :: "(case_row \<Rightarrow> int) \<Rightarrow> case_row list \<Rightarrow> date \<Rightarrow> string \<Rightarrow> int" where
  "total_at col df d c = sum_list (map col (filter (\<lambda>r. date r = d \<and> country r = c) df))"

definition countries_at :: "case_row list \<Rightarrow> date \<Rightarrow> string list" where
  "countries_at df d = group_keys country (filter (\<lambda>r. date r = d) df)"

section \<open>advanced_metrics.py: rates\<close>

text \<open>
  \<open>calculate_rates\<close> works on a copy of its argument. It keeps the rows with
  \<open>confirmed_cases > 0\<close>, adds the two ratio columns (Python's true division, then times
  100; the divisor is positive, so the quotient is an ordinary number, modelled by the
  rational it denotes), and takes the mean of both columns per country.
\<close>

record rate_row =
  rt_country :: string
  fatality_rate :: rat
  recovery_rate :: rat

definition mean :: "rat list \<Rightarrow> rat" where
  "mean xs = sum_list xs / of_nat (length xs)"

definition fatality :: "case_row \<Rightarrow> rat" where
  "fatality r = (of_int (deaths_cases r) / of_int (confirmed_cases r)) * 100"

definition recovery :: "case_row \<Rightarrow> rat" where
  "recovery r = (of_int (recovered_cases r) / of_int (confirmed_cases r)) * 100"

definition calculate_rates :: "case_row list \<Rightarrow> rate_row list" where
  "calculate_rates df0 =
     (let df = filter (\<lambda>r. confirmed_cases r > 0) df0
      in map (\<lambda>(c, g). \<lparr>rt_country = c,
                          fatality_rate = mean (map fatality g),
                          recovery_rate = mean (map recovery g)\<rparr>)
             (groupby country df))"

section \<open>advanced_metrics.py: wave intensity\<close>

text \<open>
  The percentage columns are \<open>float64\<close> columns. A finite value is the rational it denotes,
  and every operation rounds its exact result to the nearest \<open>float64\<close>, a tie going to the
  even significand. For the magnitudes that quotients of 64-bit counts and their
  hundredfold take, a \<open>float64\<close> has a significand of 53 bits: \<open>float64 q\<close> is the multiple
  of \<open>2 ^ (e - 52)\<close> nearest to \<open>q\<close>, where \<open>2 ^ e \<le> |q| < 2 ^ (e + 1)\<close>. pandas does not
  raise on a zero divisor: an integer column divided by an integer column gives \<open>inf\<close>,
  \<open>-inf\<close> or \<open>NaN\<close> there.
\<close>

datatype pyfloat = Finite rat | PosInf | NegInf | NaN

text \<open>\<open>rint\<close>: the nearest integer, a tie going to the even neighbour.\<close>

definition rint :: "rat \<Rightarrow> int" where
  "rint q =
     (let f = \<lfloor>q\<rfloor>; r = q - of_int f
      in if r < 1 / 2 then f
         else if 1 / 2 < r then f + 1
         else if even f then f else f + 1)"

fun ilog2 :: "nat \<Rightarrow> nat" where
  "ilog2 n = (if n < 2 then 0 else Suc (ilog2 (n div 2)))"

declare ilog2.simps [simp del]

definition pow2 :: "int \<Rightarrow> rat" where
  "pow2 e = (if 0 \<le> e then 2 ^ nat e else 1 / 2 ^ nat (- e))"

text \<open>The binary exponent of a positive number: \<open>pow2 e \<le> q < pow2 (e + 1)\<close>.\<close>

definition floor_log2 :: "rat \<Rightarrow> int" where
  "floor_log2 q =
     (if 1 \<le> q then int (ilog2 (nat \<lfloor>q\<rfloor>))
      else let k = int (ilog2 (nat \<lfloor>1 / q\<rfloor>))
           in if q = pow2 (- k) then - k else - k - 1)"

definition float64 :: "rat \<Rightarrow> rat" where
  "float64 q =
     (if q = 0 then 0
      else let u = pow2 (floor_log2 \<bar>q\<bar> - 52) in of_int (rint (q / u)) * u)"

text \<open>
  \<open>a / b\<close> on two integer columns: both operands are converted to \<open>float64\<close> and divided.
\<close>

definition truediv :: "int \<Rightarrow> int \<Rightarrow> pyfloat" where
  "truediv a b =
     (if b \<noteq> 0 then Finite (float64 (float64 (of_int a) / float64 (of_int b)))
      else if a > 0 then PosInf
      else if a < 0 then NegInf
      else NaN)"

fun times100 :: "pyfloat \<Rightarrow> pyfloat" where
  "times100 (Finite q) = Finite (float64 (q * 100))"
| "times100 PosInf = PosInf"
| "times100 NegInf = NegInf"
| "times100 NaN = NaN"

text \<open>
  \<open>Series.round(2)\<close>: the value is multiplied by 100, rounded to the nearest integer and
  divided by 100, each step a \<open>float64\<close> operation.
\<close>

fun round2 :: "pyfloat \<Rightarrow> pyfloat" where
  "round2 (Finite q) = Finite (float64 (of_int (rint (float64 (q * 100))) / 100))"
| "round2 PosInf = PosInf"
| "round2 NegInf = NegInf"
| "round2 NaN = NaN"

definition pct_change :: "int \<Rightarrow> int \<Rightarrow> pyfloat" where
  "pct_change new old = round2 (times100 (truediv (new - old) old))"

record wave_row =
  wv_country :: string
  y2021 :: int
  y2022 :: int
  y2023 :: int
  pct_2021_2022 :: pyfloat
  pct_2022_2023 :: pyfloat
  pct_2021_2023 :: pyfloat

text \<open>
  One cell of \<open>df.groupby(['country', 'year'])['confirmed_cases'].max().unstack()\<close>: the
  maximum over the rows of that country and year, missing (\<open>NaN\<close>) when there is no such
  row; \<open>fillna(0).astype(int)\<close> then turns a missing cell into 0.
\<close>

definition yearly_max :: "case_row list \<Rightarrow> string \<Rightarrow> int \<Rightarrow> int option" where
  "yearly_max df c y =
     (let g = filter (\<lambda>r. country r = c \<and> year (date r) = y) df
      in if g = [] then None else Some (Max (set (map confirmed_cases g))))"

definition yearly_cell :: "case_row list \<Rightarrow> string \<Rightarrow> int \<Rightarrow> int" where
  "yearly_cell df c y = (case yearly_max df c y of None \<Rightarrow> 0 | Some v \<Rightarrow> v)"

text \<open>
  The unstacked table has one row per country and one column per year that occurs
  anywhere in the table, both ascending. \<open>yearly_data.columns = ['2021', '2022', '2023']\<close>
  renames the columns by position and raises \<open>ValueError\<close> (length mismatch) unless there
  are exactly three of them.
\<close>

definition compare_wave_intensity :: "case_row list \<Rightarrow> py_error + wave_row list" where
  "compare_wave_intensity df =
     (let years = group_keys (\<lambda>r. year (date r)) df;
          countries = group_keys country df
      in case years of
           [ya, yb, yc] \<Rightarrow>
             Inr (map (\<lambda>c. let a = yearly_cell df c ya;
                                b = yearly_cell df c yb;
                                d = yearly_cell df c yc
                            in \<lparr>wv_country = c, y2021 = a, y2022 = b, y2023 = d,
                                pct_2021_2022 = pct_change b a,
                                pct_2022_2023 = pct_change d b,
                                pct_2021_2023 = pct_change d a\<rparr>)
                      countries)
         | _ \<Rightarrow> Inl ValueError)"

section \<open>stats.py: the filter\<close>

text \<open>
  The three predicates arrive from the caller as optional strings (the interface passes
  the text of its entry fields). Python's truth test \<open>if year:\<close> fails for \<open>None\<close> and for
  the empty string. \<open>int(year)\<close> is the builtin conversion, a parameter \<open>py_int\<close> of the
  model: \<open>None\<close> where the builtin raises \<open>ValueError\<close>.
  The first statement of \<open>filter_data\<close>, \<open>df['date'] = pd.to_datetime(df['date'], ...)\<close>,
  is an assignment to the caller's table, made before the copy: it turns the date column
  into timestamps of the same calendar days (the dates of the tables at hand, in 2021 to
  2023, are well within the range of timestamps). \<open>filter_data\<close> returns its result, a
  table or the exception, together with the caller's table as it leaves it.
\<close>

record agg_row =
  ag_country :: string
  ag_date :: date
  ag_confirmed :: int
  ag_deaths :: int
  ag_recovered :: int
  ag_latitude :: rat
  ag_longitude :: rat

text \<open>
  \<open>groupby(['country', 'date'], as_index=False).agg({...})\<close>: counts are summed and
  coordinates averaged; the province column, dropped before, does not reach the result.
\<close>

definition group_country_date :: "case_row list \<Rightarrow> agg_row list" where
  "group_country_date df =
     map (\<lambda>(k, g). \<lparr>ag_country = fst k, ag_date = snd k,
                     ag_confirmed = sum_list (map confirmed_cases g),
                     ag_deaths = sum_list (map deaths_cases g),
                     ag_recovered = sum_list (map recovered_cases g),
                     ag_latitude = mean (map latitude g),
                     ag_longitude = mean (map longitude g)\<rparr>)
         (groupby (\<lambda>r. (country r, date r)) df)"

definition int_filter ::
  "(string \<Rightarrow> int option) \<Rightarrow> string option \<Rightarrow> (case_row \<Rightarrow> int) \<Rightarrow> case_row list
     \<Rightarrow> py_error + case_row list" where
  "int_filter py_int arg col df =
     (case arg of
        None \<Rightarrow> Inr df
      | Some s \<Rightarrow>
          if s = [] then Inr df
          else (case py_int s of
                  None \<Rightarrow> Inl ValueError
                | Some n \<Rightarrow> Inr (filter (\<lambda>r. col r = n) df)))"

definition country_filter :: "string option \<Rightarrow> case_row list \<Rightarrow> case_row list" where
  "country_filter arg df =
     (case arg of
        None \<Rightarrow> df
      | Some s \<Rightarrow> if s = [] then df else filter (\<lambda>r. country r = s) df)"

definition filter_data ::
  "(string \<Rightarrow> int option) \<Rightarrow> frame \<Rightarrow> string option \<Rightarrow> string option \<Rightarrow> string option
     \<Rightarrow> (py_error + agg_row list) \<times> frame" where
  "filter_data py_int df0 year_arg month_arg country_arg =
     (let df = df0\<lparr>date_dtype := Datetime64\<rparr>;
          df_filtered = rows df
      in ((case int_filter py_int year_arg (\<lambda>r. year (date r)) df_filtered of
             Inl e \<Rightarrow> Inl e
           | Inr df1 \<Rightarrow>
               (case int_filter py_int month_arg (\<lambda>r. month (date r)) df1 of
                  Inl e \<Rightarrow> Inl e
                | Inr df2 \<Rightarrow> Inr (group_country_date (country_filter country_arg df2)))),
          df))"

section \<open>stats.py and advanced_metrics.py: functions that assign to their argument\<close>

text \<open>
  \<open>stats_by_month\<close>, \<open>stats_by_year\<close> and \<open>generate_pivot\<close> assign a column to the table they
  are given (\<open>df['month_year'] = ...\<close>, \<open>df['year'] = ...\<close>) without copying it first; they
  return their result together with the caller's table as they leave it. The attribute
  reads \<open>x.year\<close> and \<open>x.strftime\<close> work alike on both representations of a date.
\<close>

text \<open>\<open>x.strftime('%Y-%m')\<close>, for the four-digit years of the tables at hand.\<close>

definition digit :: "int \<Rightarrow> char" where
  "digit n = ''0123456789'' ! nat (n mod 10)"

definition strftime_Ym :: "date \<Rightarrow> string" where
  "strftime_Ym d =
     [digit (year d div 1000), digit (year d div 100), digit (year d div 10), digit (year d),
      CHR ''-'', digit (month d div 10), digit (month d)]"

record month_row =
  mr_country :: string
  mr_month_year :: string
  mr_confirmed :: int
  mr_deaths :: int
  mr_recovered :: int

record year_row =
  yr_country :: string
  yr_year :: int
  yr_confirmed :: int
  yr_deaths :: int
  yr_recovered :: int

text \<open>The maximum of a column over a group; a group of \<open>groupby\<close> is never empty.\<close>

definition col_max :: "('a \<Rightarrow> int) \<Rightarrow> 'a list \<Rightarrow> int" where
  "col_max col g = Max (set (map col g))"

definition stats_by_month :: "frame \<Rightarrow> month_row list \<times> frame" where
  "stats_by_month df0 =
     (let month_year = map (\<lambda>r. strftime_Ym (date r)) (rows df0);
          df = df0\<lparr>month_year_column := Some month_year\<rparr>;
          month_stats =
            map (\<lambda>(k, g). \<lparr>mr_country = fst k, mr_month_year = snd k,
                            mr_confirmed = col_max (\<lambda>p. confirmed_cases (fst p)) g,
                            mr_deaths = col_max (\<lambda>p. deaths_cases (fst p)) g,
                            mr_recovered = col_max (\<lambda>p. recovered_cases (fst p)) g\<rparr>)
                (groupby (\<lambda>p. (country (fst p), snd p)) (zip (rows df) month_year))
      in (month_stats, df))"

definition stats_by_year :: "frame \<Rightarrow> year_row list \<times> frame" where
  "stats_by_year df0 =
     (let years = map (\<lambda>r. year (date r)) (rows df0);
          df = df0\<lparr>year_column := Some years\<rparr>;
          year_stats =
            map (\<lambda>(k, g). \<lparr>yr_country = fst k, yr_year = snd k,
                            yr_confirmed = col_max (\<lambda>p. confirmed_cases (fst p)) g,
                            yr_deaths = col_max (\<lambda>p. deaths_cases (fst p)) g,
                            yr_recovered = col_max (\<lambda>p. recovered_cases (fst p)) g\<rparr>)
                (groupby (\<lambda>p. (country (fst p), snd p)) (zip (rows df) years))
      in (year_stats, df))"

text \<open>
  \<open>pivot_table(index='country', columns='year', values='confirmed_cases', aggfunc='max')\<close>:
  one column per year that occurs, one row per country, a cell missing where the country
  has no row in that year.
\<close>

record pivot =
  pv_years :: "int list"
  pv_rows :: "(string \<times> int option list) list"

definition generate_pivot :: "frame \<Rightarrow> pivot \<times> frame" where
  "generate_pivot df0 =
     (let years = map (\<lambda>r. year (date r)) (rows df0);
          df = df0\<lparr>year_column := Some years\<rparr>;
          tagged = zip (rows df) years;
          ys = group_keys snd tagged;
          cs = group_keys (\<lambda>p. country (fst p)) tagged;
          cell = (\<lambda>c y. let g = filter (\<lambda>p. country (fst p) = c \<and> snd p = y) tagged
                         in if g = [] then None
                            else Some (col_max (\<lambda>p. confirmed_cases (fst p)) g))
      in (\<lparr>pv_years = ys, pv_rows = map (\<lambda>c. (c, map (cell c) ys)) cs\<rparr>, df))"

section \<open>data_utils.py: ingestion\<close>

text \<open>
  A cell of a table read from a snapshot file: missing (\<open>NaN\<close>), a text or a number (the
  rational it denotes).
  A table as \<open>pd.read_csv\<close> returns it: the column labels and the rows, every row holding
  one cell per column. A label names the first column that carries it; the snapshot files
  carry each label once.
\<close>

datatype cell = Null | Str string | Num rat

record csv_frame =
  columns :: "string list"
  body :: "cell list list"

definition TARGET_COUNTRIES :: "string list" where
  "TARGET_COUNTRIES =
     [''India'', ''Brazil'', ''Russia'', ''United Kingdom'', ''Egypt'', ''Italy'',
      ''South Africa'']"

definition endswith :: "string \<Rightarrow> string \<Rightarrow> bool" where
  "endswith s suf = (length suf \<le> length s \<and> drop (length s - length suf) s = suf)"

subsection \<open>The date token of a file name\<close>

text \<open>
  \<open>datetime.strptime(s, "%m-%d-%Y").date()\<close> on ASCII text; \<open>None\<close> is the \<open>ValueError\<close> it
  raises. The standard library matches the month against \<open>1[0-2]|0[1-9]|[1-9]\<close>, the day
  against \<open>3[01]|[12]\d|0[1-9]|[1-9]| [1-9]\<close> and the year against four digits, wants the
  whole text consumed, and then builds the date, which fails for year 0 and for a day the
  month does not have. Since each of the first two fields is followed by a hyphen, taking
  the first alternative that matches loses no parse.
\<close>

definition is_digit :: "char \<Rightarrow> bool" where
  "is_digit c = (c \<in> set ''0123456789'')"

definition digit_val :: "char \<Rightarrow> int" where
  "digit_val c = int (of_char c) - 48"

fun parse_month :: "string \<Rightarrow> (int \<times> string) option" where
  "parse_month (a # b # rest) =
     (if a = CHR ''1'' \<and> b \<in> set ''012'' then Some (10 + digit_val b, rest)
      else if a = CHR ''0'' \<and> b \<in> set ''123456789'' then Some (digit_val b, rest)
      else if a \<in> set ''123456789'' then Some (digit_val a, b # rest)
      else None)"
| "parse_month [a] = (if a \<in> set ''123456789'' then Some (digit_val a, []) else None)"
| "parse_month [] = None"

fun parse_day :: "string \<Rightarrow> (int \<times> string) option" where
  "parse_day (a # b # rest) =
     (if a = CHR ''3'' \<and> b \<in> set ''01'' then Some (30 + digit_val b, rest)
      else if a \<in> set ''12'' \<and> is_digit b then Some (10 * digit_val a + digit_val b, rest)
      else if a = CHR ''0'' \<and> b \<in> set ''123456789'' then Some (digit_val b, rest)
      else if a \<in> set ''123456789'' then Some (digit_val a, b # rest)
      else if a = CHR '' '' \<and> b \<in> set ''123456789'' then Some (digit_val b, rest)
      else None)"
| "parse_day [a] = (if a \<in> set ''123456789'' then Some (digit_val a, []) else None)"
| "parse_day [] = None"

fun parse_year :: "string \<Rightarrow> (int \<times> string) option" where
  "parse_year (a # b # c # d # rest) =
     (if is_digit a \<and> is_digit b \<and> is_digit c \<and> is_digit d
      then Some (1000 * digit_val a + 100 * digit_val b + 10 * digit_val c + digit_val d, rest)
      else None)"
| "parse_year _ = None"

fun expect :: "char \<Rightarrow> string \<Rightarrow> string option" where
  "expect c (x # xs) = (if x = c then Some xs else None)"
| "expect c [] = None"

definition is_leap :: "int \<Rightarrow> bool" where
  "is_leap y = (y mod 4 = 0 \<and> (y mod 100 \<noteq> 0 \<or> y mod 400 = 0))"

definition days_in_month :: "int \<Rightarrow> int \<Rightarrow> int" where
  "days_in_month y m =
     (if m = 2 then (if is_leap y then 29 else 28)
      else if m \<in> {4, 6, 9, 11} then 30 else 31)"

definition strptime_mdY :: "string \<Rightarrow> date option" where
  "strptime_mdY s =
     (case parse_month s of
        None \<Rightarrow> None
      | Some (m, s1) \<Rightarrow>
     (case expect CHR ''-'' s1 of
        None \<Rightarrow> None
      | Some s2 \<Rightarrow>
     (case parse_day s2 of
        None \<Rightarrow> None
      | Some (d, s3) \<Rightarrow>
     (case expect CHR ''-'' s3 of
        None \<Rightarrow> None
      | Some s4 \<Rightarrow>
     (case parse_year s4 of
        None \<Rightarrow> None
      | Some (y, s5) \<Rightarrow>
          if s5 = [] \<and> 1 \<le> y \<and> d \<le> days_in_month y m then Some (y, m, d) else None)))))"

subsection \<open>One snapshot file\<close>

text \<open>
  \<open>c.strip().replace('/', '_').replace(' ', '_')\<close> on a column label. A character is its
  code point, below 256; \<open>isspace\<close> holds of the code points in that range that
  \<open>str.strip\<close> removes, the no-break space and the next-line character among them.
\<close>

definition isspace :: "char \<Rightarrow> bool" where
  "isspace c = (of_char c \<in> {9, 10, 11, 12, 13, 28, 29, 30, 31, 32, 133, 160 :: nat})"

definition strip :: "string \<Rightarrow> string" where
  "strip s = rev (dropWhile isspace (rev (dropWhile isspace s)))"

definition replace_char :: "char \<Rightarrow> char \<Rightarrow> string \<Rightarrow> string" where
  "replace_char a b s = map (\<lambda>c. if c = a then b else c) s"

definition normalise :: "string \<Rightarrow> string" where
  "normalise c = replace_char CHR '' '' CHR ''_'' (replace_char CHR ''/'' CHR ''_'' (strip c))"

text \<open>\<open>df[name] = v\<close> for a new label: a further column, the same value in every row.\<close>

definition add_column :: "csv_frame \<Rightarrow> string \<Rightarrow> cell \<Rightarrow> csv_frame" where
  "add_column df name v = \<lparr>columns = columns df @ [name], body = map (\<lambda>r. r @ [v]) (body df)\<rparr>"

text \<open>The cell of row \<open>r\<close> under the column labelled \<open>name\<close>.\<close>

definition at_column :: "csv_frame \<Rightarrow> cell list \<Rightarrow> string \<Rightarrow> cell" where
  "at_column df r name = (case map_of (zip (columns df) r) name of None \<Rightarrow> Null | Some v \<Rightarrow> v)"

text \<open>
  A row of the table \<open>load_all_csvs\<close> builds. Only rows whose \<open>Country_Region\<close> is one of the
  target names pass the \<open>isin\<close> filter, so that column holds a text in every row.
\<close>

record raw_row =
  Province_State :: cell
  Country_Region :: string
  Confirmed :: cell
  Deaths :: cell
  Recovered :: cell
  Lat :: cell
  Long_col :: cell
  report_date :: date

definition required_columns :: "string list" where
  "required_columns =
     [''Province_State'', ''Country_Region'', ''Confirmed'', ''Deaths'', ''Recovered'',
      ''Lat'', ''Long_'']"

text \<open>
  The body of the loop for a file that is read: the labels are normalised, the coordinate
  columns added where absent, the seven columns selected (\<open>KeyError\<close> when one is not
  there), the rows of other countries dropped and the report date attached.
\<close>

definition select_rows :: "date \<Rightarrow> csv_frame \<Rightarrow> py_error + raw_row list" where
  "select_rows d df0 =
     (let df1 = df0\<lparr>columns := map normalise (columns df0)\<rparr>;
          df2 = (if ''Lat'' \<notin> set (columns df1) then add_column df1 ''Lat'' (Num 0) else df1);
          df3 = (if ''Long_'' \<notin> set (columns df2) then add_column df2 ''Long_'' (Num 0) else df2)
      in if \<not> set required_columns \<subseteq> set (columns df3) then Inl KeyError
         else Inr (concat (map (\<lambda>r.
                (case at_column df3 r ''Country_Region'' of
                   Str s \<Rightarrow>
                     if s \<in> set TARGET_COUNTRIES
                     then [\<lparr>Province_State = at_column df3 r ''Province_State'',
                             Country_Region = s,
                             Confirmed = at_column df3 r ''Confirmed'',
                             Deaths = at_column df3 r ''Deaths'',
                             Recovered = at_column df3 r ''Recovered'',
                             Lat = at_column df3 r ''Lat'',
                             Long_col = at_column df3 r ''Long_'',
                             report_date = d\<rparr>]
                     else []
                 | _ \<Rightarrow> [])) (body df3))))"

subsection \<open>The loop over the directory\<close>

text \<open>
  The directory is what \<open>os.listdir\<close> returns, each name paired with what \<open>pd.read_csv\<close>
  does on that file: the table, or the exception it raises. \<open>all_data\<close> is the list the loop
  appends to. Nothing in the loop catches an exception.
\<close>

type_synonym listing = "(string \<times> (py_error + csv_frame)) list"

fun load_loop :: "listing \<Rightarrow> raw_row list list \<Rightarrow> py_error + raw_row list list" where
  "load_loop [] all_data = Inr all_data"
| "load_loop ((filename, content) # rest) all_data =
     (if \<not> endswith filename ''.csv'' then load_loop rest all_data
      else (case strptime_mdY (take (length filename - 4) filename) of
              None \<Rightarrow> Inl ValueError
            | Some rd \<Rightarrow>
                if year rd < 2021 \<or> year rd > 2023 then load_loop rest all_data
                else (case content of
                        Inl e \<Rightarrow> Inl e
                      | Inr df \<Rightarrow>
                          (case select_rows rd df of
                             Inl e \<Rightarrow> Inl e
                           | Inr rs \<Rightarrow> load_loop rest (all_data @ [rs])))))"

text \<open>\<open>pd.concat\<close> raises \<open>ValueError\<close> ("No objects to concatenate") on an empty list.\<close>

definition load_all_csvs :: "listing \<Rightarrow> py_error + raw_row list" where
  "load_all_csvs dir =
     (case load_loop dir [] of
        Inl e \<Rightarrow> Inl e
      | Inr all_data \<Rightarrow> if all_data = [] then Inl ValueError else Inr (concat all_data))"

section \<open>data_utils.py: cleaning\<close>

text \<open>
  \<open>fillna(v)\<close> on one cell, and \<open>astype(int)\<close> on one cell: a number is truncated towards
  zero, a text goes through the builtin \<open>int\<close> (the parameter \<open>py_int\<close>, \<open>None\<close> where it
  raises), a missing value cannot be converted. Every failure is a \<open>ValueError\<close>, so
  converting the three count columns one after the other raises exactly when some row has
  a count cell that fails; \<open>clean_row\<close> does the six column assignments on one row.
\<close>

definition fillna :: "cell \<Rightarrow> cell \<Rightarrow> cell" where
  "fillna v c = (case c of Null \<Rightarrow> v | _ \<Rightarrow> c)"

definition trunc :: "rat \<Rightarrow> int" where
  "trunc q = (if 0 \<le> q then \<lfloor>q\<rfloor> else \<lceil>q\<rceil>)"

fun astype_int :: "(string \<Rightarrow> int option) \<Rightarrow> cell \<Rightarrow> py_error + cell" where
  "astype_int py_int (Num q) = Inr (Num (of_int (trunc q)))"
| "astype_int py_int (Str s) =
     (case py_int s of None \<Rightarrow> Inl ValueError | Some n \<Rightarrow> Inr (Num (of_int n)))"
| "astype_int py_int Null = Inl ValueError"

definition clean_row :: "(string \<Rightarrow> int option) \<Rightarrow> raw_row \<Rightarrow> py_error + raw_row" where
  "clean_row py_int r =
     (case astype_int py_int (fillna (Num 0) (Confirmed r)) of
        Inl e \<Rightarrow> Inl e
      | Inr c \<Rightarrow>
     (case astype_int py_int (fillna (Num 0) (Deaths r)) of
        Inl e \<Rightarrow> Inl e
      | Inr d \<Rightarrow>
     (case astype_int py_int (fillna (Num 0) (Recovered r)) of
        Inl e \<Rightarrow> Inl e
      | Inr v \<Rightarrow>
          Inr (r\<lparr>Province_State := fillna (Str ''Unknown'') (Province_State r),
                 Confirmed := c, Deaths := d, Recovered := v,
                 Lat := fillna (Num 0) (Lat r),
                 Long_col := fillna (Num 0) (Long_col r)\<rparr>))))"

fun clean_rows :: "(string \<Rightarrow> int option) \<Rightarrow> raw_row list \<Rightarrow> py_error + raw_row list" where
  "clean_rows py_int [] = Inr []"
| "clean_rows py_int (r # rs) =
     (case clean_row py_int r of
        Inl e \<Rightarrow> Inl e
      | Inr r' \<Rightarrow> (case clean_rows py_int rs of Inl e \<Rightarrow> Inl e | Inr rs' \<Rightarrow> Inr (r' # rs')))"

text \<open>
  \<open>sort_values(['Country_Region', 'report_date'], ascending=[True, True])\<close>: with two sort
  columns pandas sorts lexicographically and keeps rows with equal keys in their order.
\<close>

definition clean_data :: "(string \<Rightarrow> int option) \<Rightarrow> raw_row list \<Rightarrow> py_error + raw_row list" where
  "clean_data py_int df =
     (case clean_rows py_int df of
        Inl e \<Rightarrow> Inl e
      | Inr rs \<Rightarrow> Inr (sort_key (\<lambda>r. (Country_Region r, report_date r)) rs))"

section \<open>Provenance of ingested rows\<close>

text \<open>Where a row of the ingested table comes from: a file of the directory that is read.\<close>

definition from_file :: "listing \<Rightarrow> raw_row \<Rightarrow> bool" where
  "from_file dir r \<longleftrightarrow>
     (\<exists>(filename, content)\<in>set dir. \<exists>df rs.
         endswith filename ''.csv''
       \<and> strptime_mdY (take (length filename - 4) filename) = Some (report_date r)
       \<and> content = Inr df \<and> select_rows (report_date r) df = Inr rs \<and> r \<in> set rs)"

section \<open>Example tables\<close>

definition ex_range :: "case_row list" where
  "ex_range =
     [\<lparr>country = ''India'', province = ''Unknown'', date = (2021, 3, 1),
        confirmed_cases = 100, deaths_cases = 4, recovered_cases = 50, latitude = 0, longitude = 0\<rparr>,
      \<lparr>country = ''India'', province = ''Unknown'', date = (2021, 3, 9),
        confirmed_cases = 180, deaths_cases = 6, recovered_cases = 90, latitude = 0, longitude = 0\<rparr>,
      \<lparr>country = ''Egypt'', province = ''Unknown'', date = (2021, 3, 9),
        confirmed_cases = 70, deaths_cases = 1, recovered_cases = 20, latitude = 0, longitude = 0\<rparr>]"

definition ex_rates :: "case_row list" where
  "ex_rates =
     [\<lparr>country = ''India'', province = ''Goa'', date = (2021, 3, 1),
        confirmed_cases = 0, deaths_cases = 0, recovered_cases = 0, latitude = 0, longitude = 0\<rparr>,
      \<lparr>country = ''India'', province = ''Goa'', date = (2021, 3, 2),
        confirmed_cases = 50, deaths_cases = 5, recovered_cases = 40, latitude = 0, longitude = 0\<rparr>]"

definition ex_one_year :: "case_row list" where
  "ex_one_year =
     [\<lparr>country = ''India'', province = ''Unknown'', date = (2021, 3, 1),
        confirmed_cases = 100, deaths_cases = 4, recovered_cases = 50, latitude = 0, longitude = 0\<rparr>]"

definition ex_waves :: "case_row list" where
  "ex_waves =
     [\<lparr>country = ''India'', province = ''Unknown'', date = (2021, 6, 1),
        confirmed_cases = 100, deaths_cases = 4, recovered_cases = 50, latitude = 0, longitude = 0\<rparr>,
      \<lparr>country = ''India'', province = ''Unknown'', date = (2021, 2, 1),
        confirmed_cases = 60, deaths_cases = 1, recovered_cases = 20, latitude = 0, longitude = 0\<rparr>,
      \<lparr>country = ''India'', province = ''Unknown'', date = (2022, 6, 1),
        confirmed_cases = 150, deaths_cases = 6, recovered_cases = 90, latitude = 0, longitude = 0\<rparr>,
      \<lparr>country = ''India'', province = ''Unknown'', date = (2023, 1, 5),
        confirmed_cases = 120, deaths_cases = 6, recovered_cases = 90, latitude = 0, longitude = 0\<rparr>,
      \<lparr>country = ''Egypt'', province = ''Unknown'', date = (2022, 1, 5),
        confirmed_cases = 30, deaths_cases = 6, recovered_cases = 90, latitude = 0, longitude = 0\<rparr>]"

text \<open>Tables as \<open>load_data_from_db\<close> returns them: date objects, no added column.\<close>

definition ex_frame :: frame where
  "ex_frame =
     \<lparr>rows = ex_waves, date_dtype = DateObjects, year_column = None, month_year_column = None\<rparr>"

definition ex_range_frame :: frame where
  "ex_range_frame =
     \<lparr>rows = ex_range, date_dtype = DateObjects, year_column = None, month_year_column = None\<rparr>"

definition ex_snapshot :: csv_frame where
  "ex_snapshot =
     \<lparr>columns = [''Province/State'', ''Country/Region'', ''Last Update'', ''Confirmed'', ''Deaths'', ''Recovered''],
      body = [[Null, Str ''India'', Str ''2021-03-02 05:00:00'', Num 100, Null, Num (101 / 2)],
              [Str ''Hubei'', Str ''China'', Str ''2021-03-02 05:00:00'', Num 7, Num 1, Num 2],
              [Str ''Goa'', Str ''India'', Str ''2021-03-02 05:00:00'', Str ''12'', Num 1, Num 2],
              [Null, Str ''Egypt'', Str ''2021-03-02 05:00:00'', Num 9, Num 1, Num 2]]\<rparr>"

definition ex_dir :: listing where
  "ex_dir = [(''README.md'', Inl ValueError), (''03-01-2021.csv'', Inr ex_snapshot), (''01-22-2020.csv'', Inr ex_snapshot)]"

definition ex_dir_none :: listing where
  "ex_dir_none = [(''README.md'', Inl ValueError), (''01-22-2020.csv'', Inr ex_snapshot)]"

definition ex_dir_bad :: listing where
  "ex_dir_bad = [(''notes.csv'', Inr ex_snapshot), (''03-01-2021.csv'', Inr ex_snapshot)]"

definition ex_raw :: "raw_row list" where
  "ex_raw =
     [\<lparr>Province_State = Null, Country_Region = ''India'',
        Confirmed = Num 100, Deaths = Null, Recovered = Num (101 / 2),
        Lat = Num 0, Long_col = Num 0, report_date = (2021, 3, 1)\<rparr>,
      \<lparr>Province_State = Str ''Goa'', Country_Region = ''India'',
        Confirmed = Str ''12'', Deaths = Num 1, Recovered = Num 2,
        Lat = Num 0, Long_col = Num 0, report_date = (2021, 3, 1)\<rparr>,
      \<lparr>Province_State = Null, Country_Region = ''Egypt'', Confirmed = Num 9,
        Deaths = Num 1, Recovered = Num 2, Lat = Num 0, Long_col = Num 0,
        report_date = (2021, 3, 1)\<rparr>]"

definition ex_clean :: "raw_row list" where
  "ex_clean =
     [\<lparr>Province_State = Str ''Unknown'', Country_Region = ''Egypt'',
        Confirmed = Num 9, Deaths = Num 1, Recovered = Num 2, Lat = Num 0,
        Long_col = Num 0, report_date = (2021, 3, 1)\<rparr>,
      \<lparr>Province_State = Str ''Unknown'', Country_Region = ''India'',
        Confirmed = Num 100, Deaths = Num 0, Recovered = Num 50,
        Lat = Num 0, Long_col = Num 0, report_date = (2021, 3, 1)\<rparr>,
      \<lparr>Province_State = Str ''Goa'', Country_Region = ''India'',
        Confirmed = Num 12, Deaths = Num 1, Recovered = Num 2, Lat = Num 0,
        Long_col = Num 0, report_date = (2021, 3, 1)\<rparr>]"

text \<open>A stand-in for the builtin \<open>int\<close> on the one text the examples convert.\<close>

definition ex_py_int :: "string \<Rightarrow> int option" where
  "ex_py_int s = (if s = ''12'' then Some 12 else None)"

section \<open>Properties of grouping\<close>

lemma distinct_group_keys: "distinct (group_keys key xs)"
  by (simp add: group_keys_def)

lemma set_group_keys: "set (group_keys key xs) = key ` set xs"
  by (simp add: group_keys_def)

lemma sorted_group_keys: "sorted (group_keys key xs)"
  by (simp add: group_keys_def)

lemma filter_unique_key:
  "distinct ks \<Longrightarrow> k \<in> set ks \<Longrightarrow> filter (\<lambda>x. x = k) ks = [k]"
proof (induction ks)
  case Nil
  then show ?case by simp
next
  case (Cons a ks)
  show ?case
  proof (cases "a = k")
    case True
    with Cons.prems have "k \<notin> set ks" by simp
    then have "filter (\<lambda>x. x = k) ks = []" by (auto simp add: filter_empty_conv)
    with True show ?thesis by simp
  next
    case False
    with Cons show ?thesis by auto
  qed
qed

lemma filter_absent_key: "k \<notin> set ks \<Longrightarrow> filter (\<lambda>x. x = k) ks = []"
  by (auto simp add: filter_empty_conv)

section \<open>Properties of the date-range delta\<close>

lemma rows_at_date_objects:
  "date_dtype df = DateObjects \<Longrightarrow> rows_at df d = filter (\<lambda>r. date r = d) (rows df)"
  by (simp add: rows_at_def)

lemma rows_at_datetime64: "date_dtype df = Datetime64 \<Longrightarrow> rows_at df d = []"
  by (simp add: rows_at_def)

lemma sums_at_map:
  assumes "date_dtype df = DateObjects"
  shows "sums_at df d =
     map (\<lambda>c. \<lparr>cr_country = c,
                cr_confirmed = total_at confirmed_cases (rows df) d c,
                cr_deaths = total_at deaths_cases (rows df) d c,
                cr_recovered = total_at recovered_cases (rows df) d c\<rparr>)
         (countries_at (rows df) d)"
  by (simp add: sums_at_def groupby_def countries_at_def total_at_def comp_def
        rows_at_date_objects [OF assms])

lemma filter_sums_at:
  assumes "date_dtype df = DateObjects"
  shows "filter (\<lambda>s. cr_country s = c) (sums_at df d) =
     (if c \<in> set (countries_at (rows df) d)
      then [\<lparr>cr_country = c,
              cr_confirmed = total_at confirmed_cases (rows df) d c,
              cr_deaths = total_at deaths_cases (rows df) d c,
              cr_recovered = total_at recovered_cases (rows df) d c\<rparr>]
      else [])"
proof -
  have d: "distinct (countries_at (rows df) d)"
    by (simp add: countries_at_def distinct_group_keys)
  have "filter (\<lambda>s. cr_country s = c) (sums_at df d) =
          map (\<lambda>c. \<lparr>cr_country = c,
                cr_confirmed = total_at confirmed_cases (rows df) d c,
                cr_deaths = total_at deaths_cases (rows df) d c,
                cr_recovered = total_at recovered_cases (rows df) d c\<rparr>)
              (filter (\<lambda>x. x = c) (countries_at (rows df) d))"
    by (simp add: sums_at_map [OF assms] filter_map comp_def)
  then show ?thesis
    using d by (simp add: filter_unique_key filter_absent_key)
qed

lemma stats_by_date_range_char:
  assumes "date_dtype df = DateObjects"
  shows "stats_by_date_range df s e =
     map (\<lambda>c. \<lparr>cr_country = c,
                cr_confirmed = total_at confirmed_cases (rows df) e c
                               - total_at confirmed_cases (rows df) s c,
                cr_deaths = total_at deaths_cases (rows df) e c
                            - total_at deaths_cases (rows df) s c,
                cr_recovered = total_at recovered_cases (rows df) e c
                               - total_at recovered_cases (rows df) s c\<rparr>)
         (filter (\<lambda>c. c \<in> set (countries_at (rows df) s)) (countries_at (rows df) e))"
proof -
  have "merge_delta (map f cs) (sums_at df s) =
          map (\<lambda>c. \<lparr>cr_country = c,
                cr_confirmed = cr_confirmed (f c) - total_at confirmed_cases (rows df) s c,
                cr_deaths = cr_deaths (f c) - total_at deaths_cases (rows df) s c,
                cr_recovered = cr_recovered (f c) - total_at recovered_cases (rows df) s c\<rparr>)
              (filter (\<lambda>c. c \<in> set (countries_at (rows df) s)) cs)"
    if "\<And>c. cr_country (f c) = c" for f :: "string \<Rightarrow> count_row" and cs
    using that by (induction cs) (simp_all add: merge_delta_def filter_sums_at [OF assms])
  from this [of "\<lambda>c. \<lparr>cr_country = c,
                cr_confirmed = total_at confirmed_cases (rows df) e c,
                cr_deaths = total_at deaths_cases (rows df) e c,
                cr_recovered = total_at recovered_cases (rows df) e c\<rparr>" "countries_at (rows df) e"]
  show ?thesis
    by (simp add: stats_by_date_range_def Let_def sums_at_map [OF assms, of e])
qed

text \<open>
  On a table whose date column holds date objects, the date-range delta has exactly one
  row for each country with a row at the start date and a row at the end date, holding
  the country's sum at the end date minus its sum at the start date.
\<close>

lemma stats_by_date_range_on_date_objects:
  assumes "date_dtype df = DateObjects"
  shows "(\<forall>c. c \<in> set (map cr_country (stats_by_date_range df s e)) \<longleftrightarrow>
         (\<exists>r\<in>set (rows df). country r = c \<and> date r = s)
         \<and> (\<exists>r\<in>set (rows df). country r = c \<and> date r = e))
   \<and> distinct (map cr_country (stats_by_date_range df s e))
   \<and> (\<forall>x\<in>set (stats_by_date_range df s e).
         cr_confirmed x = total_at confirmed_cases (rows df) e (cr_country x)
                          - total_at confirmed_cases (rows df) s (cr_country x)
       \<and> cr_deaths x = total_at deaths_cases (rows df) e (cr_country x)
                       - total_at deaths_cases (rows df) s (cr_country x)
       \<and> cr_recovered x = total_at recovered_cases (rows df) e (cr_country x)
                          - total_at recovered_cases (rows df) s (cr_country x))"
proof -
  note char = stats_by_date_range_char [OF assms]
  have cs: "map cr_country (stats_by_date_range df s e) =
              filter (\<lambda>c. c \<in> set (countries_at (rows df) s)) (countries_at (rows df) e)"
    by (simp add: char comp_def)
  have mem: "c \<in> set (countries_at (rows df) d) \<longleftrightarrow> (\<exists>r\<in>set (rows df). country r = c \<and> date r = d)"
    for c d
    by (auto simp add: countries_at_def set_group_keys)
  have 1: "\<forall>c. c \<in> set (map cr_country (stats_by_date_range df s e)) \<longleftrightarrow>
         (\<exists>r\<in>set (rows df). country r = c \<and> date r = s)
         \<and> (\<exists>r\<in>set (rows df). country r = c \<and> date r = e)"
    unfolding cs by (auto simp add: mem)
  have 2: "distinct (map cr_country (stats_by_date_range df s e))"
    unfolding cs by (simp add: countries_at_def distinct_group_keys)
  have 3: "\<forall>x\<in>set (stats_by_date_range df s e).
         cr_confirmed x = total_at confirmed_cases (rows df) e (cr_country x)
                          - total_at confirmed_cases (rows df) s (cr_country x)
       \<and> cr_deaths x = total_at deaths_cases (rows df) e (cr_country x)
                       - total_at deaths_cases (rows df) s (cr_country x)
       \<and> cr_recovered x = total_at recovered_cases (rows df) e (cr_country x)
                          - total_at recovered_cases (rows df) s (cr_country x)"
    by (auto simp add: char)
  from 1 2 3 show ?thesis by blast
qed

text \<open>
  On such a table, with the start date and the end date both \<open>d\<close>, the result has exactly
  one row for each country with a row at \<open>d\<close>, all deltas 0.
\<close>

lemma stats_by_date_range_same_date_on_date_objects:
  assumes "date_dtype df = DateObjects"
  shows "(\<forall>c. c \<in> set (map cr_country (stats_by_date_range df d d)) \<longleftrightarrow>
         (\<exists>r\<in>set (rows df). country r = c \<and> date r = d))
   \<and> distinct (map cr_country (stats_by_date_range df d d))
   \<and> (\<forall>x\<in>set (stats_by_date_range df d d).
         cr_confirmed x = 0 \<and> cr_deaths x = 0 \<and> cr_recovered x = 0)"
proof -
  note char = stats_by_date_range_char [OF assms]
  have cs: "map cr_country (stats_by_date_range df d d) = countries_at (rows df) d"
    by (simp add: char comp_def)
  have 1: "\<forall>c. c \<in> set (map cr_country (stats_by_date_range df d d)) \<longleftrightarrow>
         (\<exists>r\<in>set (rows df). country r = c \<and> date r = d)"
    unfolding cs by (auto simp add: countries_at_def set_group_keys)
  have 2: "distinct (map cr_country (stats_by_date_range df d d))"
    unfolding cs by (simp add: countries_at_def distinct_group_keys)
  have 3: "\<forall>x\<in>set (stats_by_date_range df d d).
         cr_confirmed x = 0 \<and> cr_deaths x = 0 \<and> cr_recovered x = 0"
    by (auto simp add: char)
  from 1 2 3 show ?thesis by blast
qed

text \<open>
  On a table whose date column holds timestamps, no row is selected at either date and
  the result is empty, whatever the rows are. \<open>filter_data\<close> leaves the caller's table in
  that state, so every date-range delta computed on a table after it was filtered once is
  empty.
\<close>

lemma stats_by_date_range_datetime64:
  "date_dtype df = Datetime64 \<Longrightarrow> stats_by_date_range df s e = []"
  by (simp add: stats_by_date_range_def sums_at_def rows_at_def groupby_def group_keys_def
        merge_delta_def)

lemma filter_data_leaves:
  "snd (filter_data py_int df y m c) = df\<lparr>date_dtype := Datetime64\<rparr>"
  by (simp add: filter_data_def Let_def)

lemma stats_by_date_range_after_filter:
  "stats_by_date_range (snd (filter_data py_int df y m c)) s e = []"
  by (simp add: stats_by_date_range_datetime64 filter_data_leaves)

text \<open>
  Claim C3 says that for every table the delta has a row for each country with rows at
  both dates, and that India with 100 confirmed cases at the start date and 180 at the end
  date gets 80. On the table \<open>ex_range_frame\<close> as loaded from the database the function
  returns that row. Once \<open>filter_data\<close> has been called on the table, with no predicate
  set, the caller's table has the same rows but a \<open>datetime64\<close> date column, and the same
  call returns no row.
\<close>

theorem stats_by_date_range_empty_after_filter:
  "stats_by_date_range ex_range_frame (2021, 3, 1) (2021, 3, 9) =
     [\<lparr>cr_country = ''India'', cr_confirmed = 80, cr_deaths = 2, cr_recovered = 40\<rparr>]
   \<and> rows (snd (filter_data ex_py_int ex_range_frame None None None)) = rows ex_range_frame
   \<and> stats_by_date_range (snd (filter_data ex_py_int ex_range_frame None None None))
        (2021, 3, 1) (2021, 3, 9) = []"
  by (simp add: stats_by_date_range_def sums_at_def rows_at_def groupby_def group_keys_def
        merge_delta_def filter_data_def ex_range_frame_def ex_range_def Let_def)


section \<open>Properties of the filter\<close>

lemma sum_list_indicator:
  "distinct ks \<Longrightarrow> k \<in> set ks \<Longrightarrow> sum_list (map (\<lambda>j. if k = j then v else 0) ks) = (v::'a::comm_monoid_add)"
proof (induction ks)
  case Nil
  then show ?case by simp
next
  case (Cons a ks)
  have zero: "sum_list (map (\<lambda>j. if k = j then v else 0) js) = 0" if "k \<notin> set js" for js
    using that by (induction js) auto
  show ?case
  proof (cases "k = a")
    case True
    with Cons.prems have "k \<notin> set ks" by simp
    then have "sum_list (map (\<lambda>j. if k = j then v else 0) ks) = 0" by (rule zero)
    with True show ?thesis by simp
  next
    case False
    with Cons show ?thesis by simp
  qed
qed

lemma sum_list_groups:
  fixes f :: "'a \<Rightarrow> 'b::comm_monoid_add"
  assumes "distinct ks" and "key ` set xs \<subseteq> set ks"
  shows "sum_list (map (\<lambda>k. sum_list (map f (filter (\<lambda>x. key x = k) xs))) ks) = sum_list (map f xs)"
  using assms(2)
proof (induction xs)
  case Nil
  then show ?case by simp
next
  case (Cons x xs)
  have "sum_list (map (\<lambda>k. sum_list (map f (filter (\<lambda>y. key y = k) (x # xs)))) ks) =
        sum_list (map (\<lambda>k. (if key x = k then f x else 0) + sum_list (map f (filter (\<lambda>y. key y = k) xs))) ks)"
    by (rule arg_cong [where f = sum_list]) (rule map_cong, simp, simp)
  also have "\<dots> = sum_list (map (\<lambda>k. if key x = k then f x else 0) ks)
                 + sum_list (map (\<lambda>k. sum_list (map f (filter (\<lambda>y. key y = k) xs))) ks)"
    by (simp add: sum_list_addf)
  also have "\<dots> = f x + sum_list (map f xs)"
    using Cons assms(1) by (simp add: sum_list_indicator)
  finally show ?case by simp
qed

lemma group_country_date_sum:
  "sum_list (map ag_confirmed (group_country_date df)) = sum_list (map confirmed_cases df)"
  "sum_list (map ag_deaths (group_country_date df)) = sum_list (map deaths_cases df)"
  "sum_list (map ag_recovered (group_country_date df)) = sum_list (map recovered_cases df)"
  by (simp_all add: group_country_date_def groupby_def comp_def
        sum_list_groups distinct_group_keys set_group_keys)

lemma group_country_date_keys:
  "map (\<lambda>x. (ag_country x, ag_date x)) (group_country_date df) = group_keys (\<lambda>r. (country r, date r)) df"
  by (simp add: group_country_date_def groupby_def comp_def)

lemma filter_data_unset:
  assumes "y = None \<or> y = Some []" "m = None \<or> m = Some []" "c = None \<or> c = Some []"
  shows "fst (filter_data py_int df y m c) = Inr (group_country_date (rows df))"
  using assms by (auto simp add: filter_data_def int_filter_def country_filter_def Let_def)

text \<open>
  Claim C9. Called with the year, month and country predicates all unset (\<open>None\<close> or the
  empty string), the filter returns a table with one row per (country, date) pair of the
  input, in ascending order; its rows carry no province; and the totals of its confirmed,
  deaths and recovered columns are the totals of those columns over the input.
  (\<open>fst\<close> is the returned table; the second component is the caller's table.)
\<close>

theorem filter_data_unset_totals:
  assumes "y = None \<or> y = Some []" and "m = None \<or> m = Some []" and "c = None \<or> c = Some []"
  shows "\<exists>out. fst (filter_data py_int df y m c) = Inr out
           \<and> distinct (map (\<lambda>x. (ag_country x, ag_date x)) out)
           \<and> sorted (map (\<lambda>x. (ag_country x, ag_date x)) out)
           \<and> set (map (\<lambda>x. (ag_country x, ag_date x)) out)
               = (\<lambda>r. (country r, date r)) ` set (rows df)
           \<and> sum_list (map ag_confirmed out) = sum_list (map confirmed_cases (rows df))
           \<and> sum_list (map ag_deaths out) = sum_list (map deaths_cases (rows df))
           \<and> sum_list (map ag_recovered out) = sum_list (map recovered_cases (rows df))"
proof -
  let ?rs = "rows df"
  have "set (map (\<lambda>x. (ag_country x, ag_date x)) (group_country_date ?rs)) =
          (\<lambda>r. (country r, date r)) ` set ?rs"
    by (simp only: group_country_date_keys set_group_keys)
  then have "distinct (map (\<lambda>x. (ag_country x, ag_date x)) (group_country_date ?rs))
           \<and> sorted (map (\<lambda>x. (ag_country x, ag_date x)) (group_country_date ?rs))
           \<and> set (map (\<lambda>x. (ag_country x, ag_date x)) (group_country_date ?rs))
               = (\<lambda>r. (country r, date r)) ` set ?rs
           \<and> sum_list (map ag_confirmed (group_country_date ?rs)) = sum_list (map confirmed_cases ?rs)
           \<and> sum_list (map ag_deaths (group_country_date ?rs)) = sum_list (map deaths_cases ?rs)
           \<and> sum_list (map ag_recovered (group_country_date ?rs)) = sum_list (map recovered_cases ?rs)"
    by (simp only: group_country_date_sum group_country_date_keys
          distinct_group_keys sorted_group_keys simp_thms)
  with filter_data_unset [OF assms, of py_int df] show ?thesis
    by blast
qed

theorem filter_data_unset_totals_witness:
  "\<exists>out. fst (filter_data (\<lambda>s. None) ex_range_frame None (Some []) None) = Inr out
         \<and> sum_list (map ag_confirmed out) = 350
         \<and> sum_list (map ag_deaths out) = 11
         \<and> sum_list (map ag_recovered out) = 160"
  using filter_data_unset_totals
          [where y = None and m = "Some []" and c = None and py_int = "\<lambda>s. None"
             and df = ex_range_frame]
  by (auto simp add: ex_range_frame_def ex_range_def)

section \<open>Properties of the rate calculation\<close>

lemma calculate_rates_char:
  "calculate_rates df =
     map (\<lambda>c. \<lparr>rt_country = c,
                fatality_rate = mean (map fatality (filter (\<lambda>r. country r = c \<and> 0 < confirmed_cases r) df)),
                recovery_rate = mean (map recovery (filter (\<lambda>r. country r = c \<and> 0 < confirmed_cases r) df))\<rparr>)
         (group_keys country (filter (\<lambda>r. 0 < confirmed_cases r) df))"
  by (simp add: calculate_rates_def groupby_def comp_def conj_commute)

text \<open>
  Claim C2. For every table, rows with \<open>confirmed_cases = 0\<close> are discarded before anything
  else (the function keeps the rows with \<open>confirmed_cases > 0\<close>, so removing the zero rows
  beforehand changes nothing); the result has exactly one row for each country that still
  has a row; and the fatality and recovery rate of that row are the arithmetic means, over
  the country's remaining rows, of \<open>deaths_cases / confirmed_cases * 100\<close> and of
  \<open>recovered_cases / confirmed_cases * 100\<close>: a mean of the per-row ratios.
\<close>

theorem calculate_rates_mean:
  "calculate_rates (filter (\<lambda>r. confirmed_cases r \<noteq> 0) df) = calculate_rates df
   \<and> distinct (map rt_country (calculate_rates df))
   \<and> set (map rt_country (calculate_rates df)) = country ` set (filter (\<lambda>r. 0 < confirmed_cases r) df)
   \<and> (\<forall>x\<in>set (calculate_rates df).
         fatality_rate x =
           (\<Sum>r\<leftarrow>filter (\<lambda>r. country r = rt_country x \<and> 0 < confirmed_cases r) df.
               of_int (deaths_cases r) / of_int (confirmed_cases r) * 100)
           / of_nat (length (filter (\<lambda>r. country r = rt_country x \<and> 0 < confirmed_cases r) df))
       \<and> recovery_rate x =
           (\<Sum>r\<leftarrow>filter (\<lambda>r. country r = rt_country x \<and> 0 < confirmed_cases r) df.
               of_int (recovered_cases r) / of_int (confirmed_cases r) * 100)
           / of_nat (length (filter (\<lambda>r. country r = rt_country x \<and> 0 < confirmed_cases r) df)))"
proof -
  have "filter (\<lambda>r. 0 < confirmed_cases r) (filter (\<lambda>r. confirmed_cases r \<noteq> 0) df)
          = filter (\<lambda>r. 0 < confirmed_cases r) df"
    by (induction df) auto
  then have 1: "calculate_rates (filter (\<lambda>r. confirmed_cases r \<noteq> 0) df) = calculate_rates df"
    by (simp add: calculate_rates_def)
  have cs: "map rt_country (calculate_rates df) =
              group_keys country (filter (\<lambda>r. 0 < confirmed_cases r) df)"
    by (simp add: calculate_rates_char comp_def)
  have 2: "distinct (map rt_country (calculate_rates df))"
    unfolding cs by (rule distinct_group_keys)
  have 3: "set (map rt_country (calculate_rates df)) = country ` set (filter (\<lambda>r. 0 < confirmed_cases r) df)"
    unfolding cs by (simp add: set_group_keys)
  have 4: "\<forall>x\<in>set (calculate_rates df).
         fatality_rate x =
           (\<Sum>r\<leftarrow>filter (\<lambda>r. country r = rt_country x \<and> 0 < confirmed_cases r) df.
               of_int (deaths_cases r) / of_int (confirmed_cases r) * 100)
           / of_nat (length (filter (\<lambda>r. country r = rt_country x \<and> 0 < confirmed_cases r) df))
       \<and> recovery_rate x =
           (\<Sum>r\<leftarrow>filter (\<lambda>r. country r = rt_country x \<and> 0 < confirmed_cases r) df.
               of_int (recovered_cases r) / of_int (confirmed_cases r) * 100)
           / of_nat (length (filter (\<lambda>r. country r = rt_country x \<and> 0 < confirmed_cases r) df))"
    by (auto simp add: calculate_rates_char mean_def fatality_def [abs_def] recovery_def [abs_def])
  from 1 2 3 4 show ?thesis by blast
qed

theorem calculate_rates_mean_witness:
  "\<exists>x\<in>set (calculate_rates ex_rates).
     rt_country x = ''India'' \<and> fatality_rate x = 10 \<and> recovery_rate x = 80"
proof -
  note facts = calculate_rates_mean [of ex_rates]
  have "''India'' \<in> set (map rt_country (calculate_rates ex_rates))"
    using facts [THEN conjunct2, THEN conjunct2, THEN conjunct1] by (simp add: ex_rates_def)
  then obtain x where x: "x \<in> set (calculate_rates ex_rates)" "rt_country x = ''India''"
    by auto
  with facts [THEN conjunct2, THEN conjunct2, THEN conjunct2]
  have "fatality_rate x = 10 \<and> recovery_rate x = 80"
    by (simp add: ex_rates_def)
  with x show ?thesis by blast
qed

text \<open>
  The mean of the ratios is not the ratio of the sums: two rows with 10 deaths in 100
  cases and 0 deaths in 900 cases give 5 per cent, where the sums would give 1 per cent.
\<close>

lemma calculate_rates_not_ratio_of_sums:
  "calculate_rates
     [\<lparr>country = ''Italy'', province = ''A'', date = (2021, 1, 1), confirmed_cases = 100,
        deaths_cases = 10, recovered_cases = 0, latitude = 0, longitude = 0\<rparr>,
      \<lparr>country = ''Italy'', province = ''B'', date = (2021, 1, 1), confirmed_cases = 900,
        deaths_cases = 0, recovered_cases = 0, latitude = 0, longitude = 0\<rparr>]
   = [\<lparr>rt_country = ''Italy'', fatality_rate = 5, recovery_rate = 0\<rparr>]"
  by (simp add: calculate_rates_def groupby_def group_keys_def mean_def fatality_def recovery_def)

section \<open>Properties of the wave-intensity comparison\<close>

lemma group_keys_three:
  fixes a b c :: "'k::linorder"
  assumes "key ` set xs = {a, b, c}" and "a < b" and "b < c"
  shows "group_keys key xs = [a, b, c]"
proof -
  have "sorted [a, b, c]" "distinct [a, b, c]" "set [a, b, c] = set (group_keys key xs)"
    using assms by (auto simp add: set_group_keys)
  then show ?thesis
    using sorted_distinct_set_unique [of "group_keys key xs" "[a, b, c]"]
    by (simp add: sorted_group_keys distinct_group_keys)
qed

lemma compare_wave_intensity_three_years:
  assumes "(\<lambda>r. year (date r)) ` set df = {2021, 2022, 2023}"
  shows "compare_wave_intensity df =
           Inr (map (\<lambda>c. \<lparr>wv_country = c,
                            y2021 = yearly_cell df c 2021,
                            y2022 = yearly_cell df c 2022,
                            y2023 = yearly_cell df c 2023,
                            pct_2021_2022 = pct_change (yearly_cell df c 2022) (yearly_cell df c 2021),
                            pct_2022_2023 = pct_change (yearly_cell df c 2023) (yearly_cell df c 2022),
                            pct_2021_2023 = pct_change (yearly_cell df c 2023) (yearly_cell df c 2021)\<rparr>)
                    (group_keys country df))"
proof -
  have "group_keys (\<lambda>r. year (date r)) df = [2021, 2022, 2023]"
    using assms by (intro group_keys_three) simp_all
  then show ?thesis
    by (simp add: compare_wave_intensity_def Let_def)
qed

lemma compare_wave_intensity_raises:
  assumes "length (group_keys (\<lambda>r. year (date r)) df) \<noteq> 3"
  shows "compare_wave_intensity df = Inl ValueError"
proof -
  obtain ys where ys: "group_keys (\<lambda>r. year (date r)) df = ys" by simp
  with assms have "length ys \<noteq> 3" by simp
  then have "(case ys of [ya, yb, yc] \<Rightarrow> Inr (f ya yb yc) | _ \<Rightarrow> Inl ValueError) = Inl ValueError" for f :: "int \<Rightarrow> int \<Rightarrow> int \<Rightarrow> wave_row list"
    by (auto split: list.splits)
  then show ?thesis
    by (simp add: compare_wave_intensity_def Let_def ys)
qed

lemma floor_rat_numeral_div:
  "\<lfloor>numeral a / numeral b :: rat\<rfloor> = numeral a div numeral b"
  using floor_divide_of_int_eq [of "numeral a" "numeral b", where ?'a = rat] by simp

lemma floor_rat_neg_numeral_div:
  "\<lfloor>- (numeral a / numeral b) :: rat\<rfloor> = - numeral a div numeral b"
  using floor_divide_of_int_eq [of "- numeral a" "numeral b", where ?'a = rat] by simp

lemmas float_eval = float64_def floor_log2_def pow2_def rint_def ilog2.simps Let_def
  floor_rat_numeral_div floor_rat_neg_numeral_div

lemma pct_change_example:
  "pct_change 150 100 = Finite 50" "pct_change 120 150 = Finite (- 20)" "pct_change 120 100 = Finite 20"
  by (simp_all add: pct_change_def truediv_def float_eval)

lemma pct_change_zero:
  "pct_change 30 0 = PosInf" "pct_change 0 30 = Finite (- 100)" "pct_change 0 0 = NaN"
  by (simp_all add: pct_change_def truediv_def float_eval)

text \<open>
  The rounding is that of the \<open>float64\<close> operations: from 160 to 183 the exact change is
  14.375 per cent, the computed product is just below it and the column holds 14.37; from
  160 to 209 the exact change is 30.625 per cent and the column holds 30.63.
\<close>

lemma pct_change_float64:
  "pct_change 183 160 = Finite (float64 (1437 / 100))"
  "pct_change 209 160 = Finite (float64 (3063 / 100))"
  by (simp_all add: pct_change_def truediv_def float_eval)

lemma yearly_cell_max:
  assumes "r \<in> set df"
  shows "yearly_cell df (country r) (year (date r)) = Max (confirmed_cases ` {x \<in> set df. country x = country r \<and> year (date x) = year (date r)})"
proof -
  have "filter (\<lambda>x. country x = country r \<and> year (date x) = year (date r)) df \<noteq> []"
    using assms by (auto simp add: filter_empty_conv)
  then show ?thesis
    by (simp add: yearly_cell_def yearly_max_def Let_def)
qed

lemma yearly_cell_none:
  assumes "\<not> (\<exists>x\<in>set df. country x = c \<and> year (date x) = y)"
  shows "yearly_cell df c y = 0"
proof -
  have "filter (\<lambda>x. country x = c \<and> year (date x) = y) df = []"
    using assms by (auto simp add: filter_empty_conv)
  then show ?thesis
    by (simp add: yearly_cell_def yearly_max_def)
qed

text \<open>
  On a table whose rows cover the three years, the function returns the rows of claim C1;
  for yearly maxima 100, 150 and 120 the percentage columns are 50, -20 and 20, and a
  country without rows in a year has 0 there.
\<close>

lemma compare_wave_intensity_example:
  "compare_wave_intensity ex_waves = Inr
     [\<lparr>wv_country = ''Egypt'', y2021 = 0, y2022 = 30, y2023 = 0,
        pct_2021_2022 = PosInf, pct_2022_2023 = Finite (- 100), pct_2021_2023 = NaN\<rparr>,
      \<lparr>wv_country = ''India'', y2021 = 100, y2022 = 150, y2023 = 120,
        pct_2021_2022 = Finite 50, pct_2022_2023 = Finite (- 20), pct_2021_2023 = Finite 20\<rparr>]"
  by (simp add: compare_wave_intensity_def group_keys_def ex_waves_def yearly_cell_def
        yearly_max_def year_def Let_def pct_change_example pct_change_zero)

text \<open>
  Claim C1 asks, for every cleaned table, for one row per country with 0 in the column of
  a year without rows. The table \<open>ex_one_year\<close> is a cleaned table with a single row, India
  in 2021 with 100 confirmed cases. The unstacked table then has one year column, the
  assignment of three column names fails, and the function raises \<open>ValueError\<close> instead of
  returning the row (India, 100, 0, 0).
\<close>

theorem compare_wave_intensity_one_year_raises:
  "compare_wave_intensity ex_one_year = Inl ValueError"
  by (simp add: compare_wave_intensity_def group_keys_def ex_one_year_def)

section \<open>Effects on the argument table\<close>

lemma stats_by_month_repeat:
  "fst (stats_by_month (snd (stats_by_month df))) = fst (stats_by_month df)"
  by (simp add: stats_by_month_def Let_def)

lemma stats_by_year_repeat:
  "fst (stats_by_year (snd (stats_by_year df))) = fst (stats_by_year df)"
  by (simp add: stats_by_year_def Let_def)

lemma generate_pivot_repeat:
  "fst (generate_pivot (snd (generate_pivot df))) = fst (generate_pivot df)"
  by (simp add: generate_pivot_def Let_def)

text \<open>
  Claim C4 says that every aggregation leaves its input table unchanged. On the table
  \<open>ex_frame\<close>, which has neither a \<open>month_year\<close> nor a \<open>year\<close> column and holds date objects,
  \<open>stats_by_month\<close> leaves the caller's table with a \<open>month_year\<close> column, \<open>stats_by_year\<close> and
  \<open>generate_pivot\<close> leave it with a \<open>year\<close> column, and \<open>filter_data\<close> leaves it with a
  \<open>datetime64\<close> date column.
\<close>

theorem aggregations_change_argument:
  "snd (stats_by_month ex_frame) =
     ex_frame\<lparr>month_year_column :=
                 Some [''2021-06'', ''2021-02'', ''2022-06'', ''2023-01'', ''2022-01'']\<rparr>
   \<and> snd (stats_by_year ex_frame) = ex_frame\<lparr>year_column := Some [2021, 2021, 2022, 2023, 2022]\<rparr>
   \<and> snd (generate_pivot ex_frame) = ex_frame\<lparr>year_column := Some [2021, 2021, 2022, 2023, 2022]\<rparr>
   \<and> snd (stats_by_month ex_frame) \<noteq> ex_frame
   \<and> snd (stats_by_year ex_frame) \<noteq> ex_frame
   \<and> snd (generate_pivot ex_frame) \<noteq> ex_frame
   \<and> snd (filter_data ex_py_int ex_frame None None None) = ex_frame\<lparr>date_dtype := Datetime64\<rparr>
   \<and> snd (filter_data ex_py_int ex_frame None None None) \<noteq> ex_frame"
  by (simp add: stats_by_month_def stats_by_year_def generate_pivot_def filter_data_def
        ex_frame_def ex_waves_def strftime_Ym_def digit_def year_def month_def Let_def)

section \<open>Properties of the ingestion\<close>

lemmas eval_defs = load_all_csvs_def endswith_def strptime_mdY_def digit_val_def is_digit_def
  days_in_month_def is_leap_def year_def select_rows_def normalise_def strip_def isspace_def
  replace_char_def add_column_def at_column_def required_columns_def TARGET_COUNTRIES_def Let_def

lemma load_all_csvs_example: "load_all_csvs ex_dir = Inr ex_raw"
  by (simp add: eval_defs ex_dir_def ex_snapshot_def ex_raw_def)

lemma select_rows_sound:
  assumes "select_rows d df = Inr rs" and "r \<in> set rs"
  shows "Country_Region r \<in> set TARGET_COUNTRIES \<and> report_date r = d"
  using assms
  by (auto simp add: select_rows_def Let_def split: if_splits cell.splits)

lemma from_file_Cons: "from_file dir r \<Longrightarrow> from_file (x # dir) r"
  by (auto simp add: from_file_def)

lemma load_loop_sound:
  assumes "load_loop dir acc = Inr out" and "rs \<in> set out" and "rs \<notin> set acc" and "r \<in> set rs"
  shows "Country_Region r \<in> set TARGET_COUNTRIES
         \<and> 2021 \<le> year (report_date r) \<and> year (report_date r) \<le> 2023
         \<and> from_file dir r"
  using assms
proof (induction dir acc rule: load_loop.induct)
  case (1 all_data)
  then show ?case by simp
next
  case (2 filename content rest all_data)
  show ?case
  proof (cases "endswith filename ''.csv''")
    case False
    with 2 show ?thesis by (auto intro: from_file_Cons)
  next
    case csv: True
    show ?thesis
    proof (cases "strptime_mdY (take (length filename - 4) filename)")
      case None
      with csv "2.prems" show ?thesis by simp
    next
      case (Some rd)
      show ?thesis
      proof (cases "year rd < 2021 \<or> year rd > 2023")
        case True
        with csv Some 2 show ?thesis by (auto intro: from_file_Cons)
      next
        case inrange: False
        show ?thesis
        proof (cases content)
          case (Inl e)
          with csv Some inrange "2.prems" show ?thesis by simp
        next
          case (Inr df)
          show ?thesis
          proof (cases "select_rows rd df")
            case (Inl e)
            with csv Some inrange Inr "2.prems" show ?thesis by simp
          next
            case sel: (Inr rs')
            with csv Some inrange Inr "2.prems"
            have run: "load_loop rest (all_data @ [rs']) = Inr out" by simp
            show ?thesis
            proof (cases "rs \<in> set (all_data @ [rs'])")
              case False
              from "2.IH"(3) [OF _ Some _ Inr sel run "2.prems"(2) False "2.prems"(4)] csv inrange
              show ?thesis by (auto intro: from_file_Cons)
            next
              case True
              with "2.prems"(3) have "rs = rs'" by simp
              with sel "2.prems"(4) have "Country_Region r \<in> set TARGET_COUNTRIES" "report_date r = rd"
                using select_rows_sound by blast+
              moreover have "from_file ((filename, content) # rest) r"
                unfolding from_file_def
                using csv Some Inr sel \<open>rs = rs'\<close> \<open>report_date r = rd\<close> "2.prems"(4)
                by auto
              ultimately show ?thesis using inrange by simp
            qed
          qed
        qed
      qed
    qed
  qed
qed

text \<open>
  Claim C7. Whenever the ingestion returns a table, every row of it has a country of the
  seven-country list, a report date whose year is 2021, 2022 or 2023, and that report
  date is the date parsed from the name of a \<open>.csv\<close> file of the directory from whose table
  the row was selected.
\<close>

theorem load_all_csvs_rows:
  assumes "load_all_csvs dir = Inr out"
  shows "\<forall>r\<in>set out.
           Country_Region r \<in> set TARGET_COUNTRIES
         \<and> year (report_date r) \<in> {2021, 2022, 2023}
         \<and> (\<exists>(filename, content)\<in>set dir. \<exists>df rs.
                endswith filename ''.csv''
              \<and> strptime_mdY (take (length filename - 4) filename) = Some (report_date r)
              \<and> content = Inr df \<and> select_rows (report_date r) df = Inr rs \<and> r \<in> set rs)"
proof
  fix r assume r: "r \<in> set out"
  from assms obtain all_data where run: "load_loop dir [] = Inr all_data" and out: "out = concat all_data"
    by (auto simp add: load_all_csvs_def split: sum.splits if_splits)
  from r out obtain rs where "rs \<in> set all_data" "r \<in> set rs" by auto
  with load_loop_sound [OF run, of rs r]
  have "Country_Region r \<in> set TARGET_COUNTRIES"
       "2021 \<le> year (report_date r)" "year (report_date r) \<le> 2023" "from_file dir r"
    by simp_all
  moreover from this(2,3) have "year (report_date r) \<in> {2021, 2022, 2023}"
    by auto
  ultimately show "Country_Region r \<in> set TARGET_COUNTRIES
         \<and> year (report_date r) \<in> {2021, 2022, 2023}
         \<and> (\<exists>(filename, content)\<in>set dir. \<exists>df rs.
                endswith filename ''.csv''
              \<and> strptime_mdY (take (length filename - 4) filename) = Some (report_date r)
              \<and> content = Inr df \<and> select_rows (report_date r) df = Inr rs \<and> r \<in> set rs)"
    unfolding from_file_def by blast
qed

theorem load_all_csvs_rows_witness:
  "load_all_csvs ex_dir = Inr ex_raw
   \<and> (\<exists>r\<in>set ex_raw.
           Confirmed r = Num 9
         \<and> Country_Region r \<in> set TARGET_COUNTRIES
         \<and> year (report_date r) \<in> {2021, 2022, 2023}
         \<and> (\<exists>(filename, content)\<in>set ex_dir. \<exists>df rs.
                endswith filename ''.csv''
              \<and> strptime_mdY (take (length filename - 4) filename) = Some (report_date r)
              \<and> content = Inr df \<and> select_rows (report_date r) df = Inr rs \<and> r \<in> set rs))"
proof -
  have h: "load_all_csvs ex_dir = Inr ex_raw"
    by (simp add: eval_defs ex_dir_def ex_snapshot_def ex_raw_def)
  have "\<exists>r\<in>set ex_raw. Confirmed r = Num 9"
    by (simp add: ex_raw_def)
  with load_all_csvs_rows [OF h] h show ?thesis by blast
qed

text \<open>
  Claim C5 says that the ingestion returns an empty table when no file passes the name
  and year filters. On the empty directory, and on the directory \<open>ex_dir_none\<close> that holds a
  text file and a snapshot of 2020, the loop appends nothing and the concatenation of the
  empty list raises \<open>ValueError\<close>.
\<close>

theorem load_all_csvs_no_file_raises:
  "load_all_csvs [] = Inl ValueError \<and> load_all_csvs ex_dir_none = Inl ValueError"
  by (simp add: eval_defs ex_dir_none_def ex_snapshot_def)

lemma load_loop_skip:
  assumes "\<not> endswith filename ''.csv''"
  shows "load_loop (pre @ (filename, content) # post) acc = load_loop (pre @ post) acc"
proof (induction pre arbitrary: acc)
  case Nil
  from assms show ?case by simp
next
  case (Cons x pre)
  obtain fn c where x: "x = (fn, c)" by (cases x)
  show ?case
    unfolding x using Cons.IH
    by (simp split: option.splits sum.splits)
qed

text \<open>
  The two guards of the loop skip with \<open>continue\<close>. A file name that does not end in \<open>.csv\<close>
  is skipped silently: the ingestion gives the same result, table or exception, as on the
  directory without that entry, whatever the file holds.
\<close>

lemma load_all_csvs_skips_non_csv:
  assumes "\<not> endswith filename ''.csv''"
  shows "load_all_csvs (pre @ (filename, content) # post) = load_all_csvs (pre @ post)"
  by (simp add: load_all_csvs_def load_loop_skip [OF assms])

lemma load_all_csvs_skips_non_csv_example:
  "load_all_csvs ex_dir =
     load_all_csvs [(''03-01-2021.csv'', Inr ex_snapshot), (''01-22-2020.csv'', Inr ex_snapshot)]"
proof -
  have h: "\<not> endswith ''README.md'' ''.csv''"
    by (simp add: endswith_def)
  from load_all_csvs_skips_non_csv [OF h, of "[]" "Inl ValueError"
         "[(''03-01-2021.csv'', Inr ex_snapshot), (''01-22-2020.csv'', Inr ex_snapshot)]"]
  show ?thesis by (simp add: ex_dir_def)
qed

text \<open>
  Claim C6 says that a file name whose date token does not parse as MM-DD-YYYY is skipped
  silently, without an exception. The directory \<open>ex_dir_bad\<close> holds \<open>notes.csv\<close> and a snapshot
  of 1 March 2021: the token \<open>notes\<close> does not parse, nothing catches the \<open>ValueError\<close> of
  \<open>strptime\<close>, and the ingestion raises it, although on the directory without that entry it
  returns the table of the snapshot.
\<close>

theorem load_all_csvs_bad_name_raises:
  "strptime_mdY (take (length ''notes.csv'' - 4) ''notes.csv'') = None
   \<and> load_all_csvs ex_dir_bad = Inl ValueError
   \<and> load_all_csvs (tl ex_dir_bad) = Inr ex_raw"
  by (simp add: eval_defs ex_dir_bad_def ex_snapshot_def ex_raw_def)

section \<open>Properties of the cleaning\<close>

lemma astype_int_fix:
  "astype_int py_int c = Inr c' \<Longrightarrow> astype_int py_int (fillna v c') = Inr c'"
  by (cases c) (auto simp add: fillna_def trunc_def split: option.splits)

lemma astype_int_integral:
  "astype_int py_int c = Inr c' \<Longrightarrow> \<exists>n. c' = Num (of_int n)"
  by (cases c) (auto split: option.splits)

lemma fillna_fix: "fillna v (fillna v c) = fillna v c"
  by (cases c; cases v) (simp_all add: fillna_def)

lemma clean_row_fix:
  assumes "clean_row py_int r = Inr r'"
  shows "clean_row py_int r' = Inr r'"
proof -
  from assms obtain c d v where
    c: "astype_int py_int (fillna (Num 0) (Confirmed r)) = Inr c" and
    d: "astype_int py_int (fillna (Num 0) (Deaths r)) = Inr d" and
    v: "astype_int py_int (fillna (Num 0) (Recovered r)) = Inr v" and
    r': "r' = r\<lparr>Province_State := fillna (Str ''Unknown'') (Province_State r),
                 Confirmed := c, Deaths := d, Recovered := v,
                 Lat := fillna (Num 0) (Lat r),
                 Long_col := fillna (Num 0) (Long_col r)\<rparr>"
    by (auto simp add: clean_row_def split: sum.splits)
  show ?thesis
    by (simp add: clean_row_def r' astype_int_fix [OF c] astype_int_fix [OF d]
          astype_int_fix [OF v] fillna_fix)
qed

lemma clean_row_key:
  "clean_row py_int r = Inr r' \<Longrightarrow> Country_Region r' = Country_Region r \<and> report_date r' = report_date r"
  by (auto simp add: clean_row_def split: sum.splits)

lemma clean_row_shape:
  assumes "clean_row py_int r = Inr r'"
  shows "Province_State r' \<noteq> Null \<and> Lat r' \<noteq> Null \<and> Long_col r' \<noteq> Null
         \<and> (\<exists>n. Confirmed r' = Num (of_int n)) \<and> (\<exists>n. Deaths r' = Num (of_int n))
         \<and> (\<exists>n. Recovered r' = Num (of_int n))"
proof -
  have nn: "fillna v c \<noteq> Null" if "v \<noteq> Null" for v c
    using that by (cases c) (auto simp add: fillna_def)
  from assms show ?thesis
    by (auto simp add: clean_row_def nn split: sum.splits dest: astype_int_integral)
qed

lemma clean_rows_elems:
  "clean_rows py_int rs = Inr rs' \<Longrightarrow> r' \<in> set rs' \<Longrightarrow> \<exists>r\<in>set rs. clean_row py_int r = Inr r'"
proof (induction rs arbitrary: rs')
  case Nil
  then show ?case by simp
next
  case (Cons a rs)
  then show ?case
    by (auto split: sum.splits)
qed

lemma clean_rows_id:
  "(\<And>r. r \<in> set rs \<Longrightarrow> clean_row py_int r = Inr r) \<Longrightarrow> clean_rows py_int rs = Inr rs"
  by (induction rs) simp_all

text \<open>
  Claim C8. Whenever cleaning a raw table returns a table, cleaning that table again
  returns the same table: it is sorted ascending by country and report date, no province
  or coordinate is missing and every count is a whole number, so the second pass changes
  nothing. (When the first pass raises there is no table to clean again.)
\<close>

theorem clean_data_idempotent:
  assumes "clean_data py_int df = Inr t"
  shows "clean_data py_int t = Inr t
         \<and> sorted (map (\<lambda>r. (Country_Region r, report_date r)) t)
         \<and> (\<forall>r\<in>set t. Province_State r \<noteq> Null \<and> Lat r \<noteq> Null \<and> Long_col r \<noteq> Null
               \<and> (\<exists>n. Confirmed r = Num (of_int n)) \<and> (\<exists>n. Deaths r = Num (of_int n))
               \<and> (\<exists>n. Recovered r = Num (of_int n)))"
proof -
  from assms obtain rs where rs: "clean_rows py_int df = Inr rs"
    and t: "t = sort_key (\<lambda>r. (Country_Region r, report_date r)) rs"
    by (auto simp add: clean_data_def split: sum.splits)
  have elem: "\<exists>r\<in>set df. clean_row py_int r = Inr r'" if "r' \<in> set t" for r'
    using that clean_rows_elems [OF rs] by (simp add: t)
  have sorted: "sorted (map (\<lambda>r. (Country_Region r, report_date r)) t)"
    unfolding t by (rule sorted_sort_key)
  have "clean_rows py_int t = Inr t"
  proof (rule clean_rows_id)
    fix r assume "r \<in> set t"
    with elem obtain r0 where "clean_row py_int r0 = Inr r" by blast
    then show "clean_row py_int r = Inr r" by (rule clean_row_fix)
  qed
  then have 1: "clean_data py_int t = Inr t"
    using sorted by (simp add: clean_data_def sort_key_id_if_sorted)
  have 3: "\<forall>r\<in>set t. Province_State r \<noteq> Null \<and> Lat r \<noteq> Null \<and> Long_col r \<noteq> Null
               \<and> (\<exists>n. Confirmed r = Num (of_int n)) \<and> (\<exists>n. Deaths r = Num (of_int n))
               \<and> (\<exists>n. Recovered r = Num (of_int n))"
    using elem clean_row_shape by blast
  from 1 sorted 3 show ?thesis by blast
qed

theorem clean_data_idempotent_witness:
  "clean_data ex_py_int ex_raw = Inr ex_clean \<and> clean_data ex_py_int ex_clean = Inr ex_clean"
proof -
  have "\<lfloor>101 / 2 :: rat\<rfloor> = 50"
    by (rule floor_unique) simp_all
  then have h: "clean_data ex_py_int ex_raw = Inr ex_clean"
    by (simp add: clean_data_def clean_row_def fillna_def trunc_def ex_py_int_def ex_raw_def
          ex_clean_def)
  from clean_data_idempotent [OF h] h show ?thesis by blast
qed

end
